theory Spec2Isabelle
  imports Complex_Main "HOL-Library.Multiset"
begin

section \<open>JavaScript numbers\<close>

text \<open>
  A JavaScript \<open>number\<close> is an IEEE 754 binary64 value. \<open>Finite s m e\<close> stands for
  \<open>(-1)^s * m * 2^e\<close>, kept in canonical form (\<open>m\<close> odd, or \<open>m = 0\<close> and \<open>e = 0\<close>),
  so that equal values are equal terms; the two zeros differ in the sign only.
  Results of arithmetic and of reading a decimal literal are rounded to the nearest
  binary64 value, ties to even, with gradual underflow and overflow to infinity.
\<close>

datatype number = NaN | Infinity bool | Finite bool int int

definition isNaN :: "number \<Rightarrow> bool" where
  "isNaN n \<longleftrightarrow> n = NaN"

fun bitLength :: "int \<Rightarrow> int" where
  "bitLength m = (if m \<le> 0 then 0 else 1 + bitLength (m div 2))"

fun normalise :: "int \<Rightarrow> int \<Rightarrow> int \<times> int" where
  "normalise m e =
     (if m \<le> 0 then (0, 0)
      else if even m then normalise (m div 2) (e + 1)
      else (m, e))"

declare bitLength.simps [simp del]
declare normalise.simps [simp del]

text \<open>
  \<open>roundBinary64 s m e sticky\<close> rounds the magnitude \<open>m * 2^e\<close> (plus, when \<open>sticky\<close>
  holds, a positive rest below \<open>2^e\<close>) to binary64. A caller that sets \<open>sticky\<close> passes
  at least 55 bits in \<open>m\<close>, so the rest only decides ties. \<open>roundShift\<close> drops the low
  \<open>k\<close> bits, rounding to nearest, ties to even; \<open>finiteOrInfinity\<close> returns the canonical
  form, or infinity when the magnitude reaches \<open>2^1024\<close>.
\<close>

definition roundShift :: "int \<Rightarrow> nat \<Rightarrow> bool \<Rightarrow> int" where
  "roundShift m k sticky =
     (let r = m mod 2 ^ k;
          half = 2 ^ (k - 1);
          up = (half < r \<or> (r = half \<and> (sticky \<or> odd (m div 2 ^ k))))
      in m div 2 ^ k + (if up then 1 else 0))"

definition finiteOrInfinity :: "bool \<Rightarrow> int \<Rightarrow> int \<Rightarrow> number" where
  "finiteOrInfinity sg m e =
     (if 1024 < bitLength m + e then Infinity sg
      else (case normalise m e of (m', e') \<Rightarrow> Finite sg m' e'))"

definition roundBinary64 :: "bool \<Rightarrow> int \<Rightarrow> int \<Rightarrow> bool \<Rightarrow> number" where
  "roundBinary64 sg m e sticky =
     (let q = max (e + bitLength m - 53) (- 1074) in
      if q \<le> e then finiteOrInfinity sg m e
      else finiteOrInfinity sg (roundShift m (nat (q - e)) sticky) q)"

text \<open>The value of the decimal literal \<open>d * 10^x\<close> (\<open>d \<ge> 0\<close>), correctly rounded.\<close>

definition ofDecimal :: "bool \<Rightarrow> int \<Rightarrow> int \<Rightarrow> number" where
  "ofDecimal sg d x =
     (if 0 \<le> x then roundBinary64 sg (d * 10 ^ nat x) 0 False
      else
        (let den = 10 ^ nat (- x);
             sh = max 0 (55 + bitLength den - bitLength d);
             num = d * 2 ^ nat sh
         in roundBinary64 sg (num div den) (- sh) (num mod den \<noteq> 0)))"

definition ofInt :: "int \<Rightarrow> number" where
  "ofInt i = ofDecimal (i < 0) \<bar>i\<bar> 0"

text \<open>The operator \<open>*\<close> on numbers.\<close>

fun times_number :: "number \<Rightarrow> number \<Rightarrow> number" where
  "times_number NaN y = NaN"
| "times_number x NaN = NaN"
| "times_number (Infinity s) (Infinity t) = Infinity (s \<noteq> t)"
| "times_number (Infinity s) (Finite t n f) = (if n = 0 then NaN else Infinity (s \<noteq> t))"
| "times_number (Finite s m e) (Infinity t) = (if m = 0 then NaN else Infinity (s \<noteq> t))"
| "times_number (Finite s m e) (Finite t n f) = roundBinary64 (s \<noteq> t) (m * n) (e + f) False"

text \<open>The mathematical value of a finite number, for stating how far two numbers are apart.\<close>

fun valueOf :: "number \<Rightarrow> rat" where
  "valueOf (Finite s m e) =
     (if s then - 1 else 1) * of_int m * (if 0 \<le> e then 2 ^ nat e else 1 / 2 ^ nat (- e))"
| "valueOf n = 0"

subsection \<open>parseInt and parseFloat\<close>

text \<open>
  Strings are modelled as ASCII: of the characters that the language strips as white
  space, the six ASCII ones are covered.
\<close>

definition isStrWhiteSpaceChar :: "char \<Rightarrow> bool" where
  "isStrWhiteSpaceChar c \<longleftrightarrow>
     c = CHR 0x09 \<or> c = CHR 0x0A \<or> c = CHR 0x0B \<or> c = CHR 0x0C \<or> c = CHR 0x0D \<or> c = CHR 0x20"

definition isDecimalDigit :: "char \<Rightarrow> bool" where
  "isDecimalDigit c \<longleftrightarrow> 48 \<le> (of_char c :: nat) \<and> (of_char c :: nat) \<le> 57"

definition digitsValue :: "string \<Rightarrow> int" where
  "digitsValue ds = foldl (\<lambda>a c. 10 * a + (of_char c - 48)) 0 ds"

text \<open>
  \<open>parseInt(s, 10)\<close>: leading white space is skipped, one sign is read, then the longest
  run of decimal digits; \<open>None\<close> is the result \<open>NaN\<close> (no digit). The integer is kept
  exact; a number holds it exactly up to \<open>2^53\<close>, far beyond the 32-bit column it is
  stored in.
\<close>

definition parseInt :: "string \<Rightarrow> int option" where
  "parseInt s =
     (let t = dropWhile isStrWhiteSpaceChar s;
          sg = (case t of c # r \<Rightarrow> if c = CHR ''-'' then - 1 else 1 | [] \<Rightarrow> 1);
          u = (case t of c # r \<Rightarrow> if c = CHR ''+'' \<or> c = CHR ''-'' then r else t | [] \<Rightarrow> t);
          z = takeWhile isDecimalDigit u
      in if z = [] then None else Some (sg * digitsValue z))"

text \<open>
  \<open>parseFloat(s)\<close>: leading white space is skipped and the longest prefix that is a
  decimal literal (sign, \<open>Infinity\<close>, digits with an optional fraction and exponent) is
  converted; without such a prefix the result is \<open>NaN\<close>.
\<close>

definition exponentPart :: "string \<Rightarrow> int" where
  "exponentPart r =
     (case r of
        [] \<Rightarrow> 0
      | c # r1 \<Rightarrow>
          if c = CHR ''e'' \<or> c = CHR ''E'' then
            (let sg = (case r1 of d # r2 \<Rightarrow> if d = CHR ''-'' then - 1 else 1 | [] \<Rightarrow> 1);
                 u = (case r1 of d # r2 \<Rightarrow> if d = CHR ''+'' \<or> d = CHR ''-'' then r2 else r1 | [] \<Rightarrow> r1);
                 z = takeWhile isDecimalDigit u
             in if z = [] then 0 else sg * digitsValue z)
          else 0)"

definition parseFloat :: "string \<Rightarrow> number" where
  "parseFloat s =
     (let t = dropWhile isStrWhiteSpaceChar s;
          neg = (case t of c # r \<Rightarrow> c = CHR ''-'' | [] \<Rightarrow> False);
          u = (case t of c # r \<Rightarrow> if c = CHR ''+'' \<or> c = CHR ''-'' then r else t | [] \<Rightarrow> t)
      in if take 8 u = ''Infinity'' then Infinity neg
         else
           (let ip = takeWhile isDecimalDigit u;
                r1 = dropWhile isDecimalDigit u;
                fp = (case r1 of c # r \<Rightarrow> if c = CHR ''.'' then takeWhile isDecimalDigit r else [] | [] \<Rightarrow> []);
                r2 = (case r1 of c # r \<Rightarrow> if c = CHR ''.'' then dropWhile isDecimalDigit r else r1 | [] \<Rightarrow> r1)
            in if ip = [] \<and> fp = [] then NaN
               else ofDecimal neg (digitsValue (ip @ fp)) (exponentPart r2 - int (length fp))))"

section \<open>Weight conversion utilities\<close>

text \<open>
  \<open>WeightUnit\<close> is the string literal type \<open>'lbs' | 'kg'\<close>; at run time a unit is a string.
  A weight arrives as a number or as a string (the store returns numeric columns as text).
\<close>

type_synonym WeightUnit = string

datatype weightArg = Num number | Str string

definition LBS_TO_KG :: number where
  "LBS_TO_KG = ofDecimal False 453592 (- 6)"

definition KG_TO_LBS :: number where
  "KG_TO_LBS = ofDecimal False 220462 (- 5)"

definition convertWeight :: "weightArg \<Rightarrow> WeightUnit \<Rightarrow> WeightUnit \<Rightarrow> number" where
  "convertWeight weight fromUnit toUnit =
     (let numWeight = (case weight of Str s \<Rightarrow> parseFloat s | Num n \<Rightarrow> n) in
      if isNaN numWeight then ofInt 0
      else if fromUnit = toUnit then numWeight
      else if fromUnit = ''lbs'' \<and> toUnit = ''kg'' then times_number numWeight LBS_TO_KG
      else if fromUnit = ''kg'' \<and> toUnit = ''lbs'' then times_number numWeight KG_TO_LBS
      else numWeight)"

definition isValidWeightUnit :: "string option \<Rightarrow> bool" where
  "isValidWeightUnit v \<longleftrightarrow> v = Some ''lbs'' \<or> v = Some ''kg''"

section \<open>Cookie-based weight unit preference\<close>

definition COOKIE_NAME :: string where
  "COOKIE_NAME = ''weight-unit''"

definition DEFAULT_UNIT :: WeightUnit where
  "DEFAULT_UNIT = ''lbs''"

text \<open>
  The cookie store maps a cookie's name to its value; \<open>cookieStore.get(name)?.value\<close> is
  the lookup, \<open>None\<close> standing for \<open>undefined\<close>.
\<close>

definition getWeightUnitPreference :: "(string \<rightharpoonup> string) \<Rightarrow> WeightUnit" where
  "getWeightUnitPreference cookieStore =
     (let u = cookieStore COOKIE_NAME in
      if isValidWeightUnit u then (case u of Some v \<Rightarrow> v | None \<Rightarrow> DEFAULT_UNIT)
      else DEFAULT_UNIT)"

section \<open>Validation of create and update input\<close>

text \<open>
  The form sends \<open>name\<close> and \<open>date\<close> as strings and \<open>durationMinutes\<close> as an optional
  string. \<open>Date.parse\<close> is the runtime's; it is a parameter \<open>Date_parse\<close> of the model,
  with \<open>None\<close> for the result \<open>NaN\<close> and the time value in milliseconds otherwise.
\<close>

record CreateWorkoutParams =
  p_name :: string
  p_date :: string
  p_durationMinutes :: "string option"

record UpdateWorkoutParams = CreateWorkoutParams +
  p_workoutId :: int

record WorkoutInput =
  d_name :: string
  d_date :: string
  d_durationMinutes :: "int option"

type_synonym fieldErrors = "(string \<times> string list) list"

text \<open>\<open>z.string().min(1, ...).max(255, ...)\<close>: the issues of the field \<open>name\<close>.\<close>

definition nameIssues :: "string \<Rightarrow> string list" where
  "nameIssues v =
     (if length v < 1 then [''Workout name is required''] else []) @
     (if 255 < length v then [''Workout name is too long''] else [])"

text \<open>\<open>z.string().refine((val) => !isNaN(Date.parse(val)), ...)\<close>: the issues of \<open>date\<close>.\<close>

definition dateIssues :: "(string \<Rightarrow> int option) \<Rightarrow> string \<Rightarrow> string list" where
  "dateIssues Date_parse v = (if Date_parse v = None then [''Invalid date format''] else [])"

text \<open>
  The transform of \<open>durationMinutes\<close>: \<open>undefined\<close> for a missing or empty string and
  for a string \<open>parseInt\<close> reads as \<open>NaN\<close>, the parsed integer otherwise.
\<close>

definition durationMinutesTransform :: "string option \<Rightarrow> int option" where
  "durationMinutesTransform v =
     (case v of
        None \<Rightarrow> None
      | Some s \<Rightarrow>
          if s = [] then None
          else (case parseInt s of None \<Rightarrow> None | Some num \<Rightarrow> Some num))"

text \<open>
  \<open>safeParse\<close> followed by \<open>error.flatten().fieldErrors\<close>: \<open>Inl\<close> carries the messages
  keyed by field, \<open>Inr\<close> the parsed data. Keys that the schema does not name are dropped.
\<close>

definition createWorkoutSchema ::
  "(string \<Rightarrow> int option) \<Rightarrow> 'a CreateWorkoutParams_scheme \<Rightarrow> fieldErrors + WorkoutInput" where
  "createWorkoutSchema Date_parse params =
     (let errs =
        (if nameIssues (p_name params) = [] then [] else [(''name'', nameIssues (p_name params))]) @
        (if dateIssues Date_parse (p_date params) = [] then []
         else [(''date'', dateIssues Date_parse (p_date params))])
      in if errs = [] then
           Inr \<lparr>d_name = p_name params, d_date = p_date params,
                d_durationMinutes = durationMinutesTransform (p_durationMinutes params)\<rparr>
         else Inl errs)"

definition updateWorkoutSchema ::
  "(string \<Rightarrow> int option) \<Rightarrow> 'a CreateWorkoutParams_scheme \<Rightarrow> fieldErrors + WorkoutInput" where
  "updateWorkoutSchema Date_parse params =
     (let errs =
        (if nameIssues (p_name params) = [] then [] else [(''name'', nameIssues (p_name params))]) @
        (if dateIssues Date_parse (p_date params) = [] then []
         else [(''date'', dateIssues Date_parse (p_date params))])
      in if errs = [] then
           Inr \<lparr>d_name = p_name params, d_date = p_date params,
                d_durationMinutes = durationMinutesTransform (p_durationMinutes params)\<rparr>
         else Inl errs)"

text \<open>The result of a server action.\<close>

datatype errors = FieldErrors fieldErrors | Message string

datatype 'a ActionResult = Success 'a | Failure errors

section \<open>The relational store\<close>

text \<open>
  The four tables of the schema. A \<open>timestamp\<close> is the time value of a \<open>Date\<close>, in
  milliseconds since the epoch; a nullable column is an \<open>option\<close>; the \<open>numeric\<close> weight is
  the string the driver returns. \<open>workouts_id_seq\<close> is the sequence behind the \<open>serial\<close> key
  of \<open>workouts\<close>.
\<close>

record Exercise =
  e_id :: int
  e_name :: string
  e_description :: "string option"
  e_muscleGroup :: "string option"
  e_createdAt :: int

record Workout =
  w_id :: int
  w_userId :: string
  w_name :: string
  w_date :: int
  w_durationMinutes :: "int option"
  w_createdAt :: int
  w_updatedAt :: int

record WorkoutExercise =
  we_id :: int
  we_workoutId :: int
  we_exerciseId :: int
  we_orderIndex :: int
  we_createdAt :: int

record SetRow =
  s_id :: int
  s_workoutExerciseId :: int
  s_setNumber :: int
  s_reps :: int
  s_weight :: string
  s_createdAt :: int

record Database =
  exercises :: "Exercise list"
  workouts :: "Workout list"
  workoutExercises :: "WorkoutExercise list"
  sets :: "SetRow list"
  workouts_id_seq :: int

datatype error = TypeError | DbError

text \<open>
  \<open>ORDER BY\<close> belongs to the store: it returns the rows sorted by the key, and the
  order among rows with equal keys is the store's choice. The model takes that choice
  as a parameter: an \<open>orderEngine\<close> receives the keys of the rows and returns the
  positions of the rows in output order. \<open>engine_ok\<close> is all that \<open>ORDER BY\<close> promises:
  the output is a rearrangement of the rows, ascending in the key.
\<close>

type_synonym orderEngine = "int list \<Rightarrow> nat list"

definition engine_ok :: "orderEngine \<Rightarrow> bool" where
  "engine_ok eng \<longleftrightarrow>
     (\<forall>ks. mset (eng ks) = mset [0..<length ks] \<and> sorted (map (\<lambda>i. ks ! i) (eng ks)))"

definition orderBy :: "orderEngine \<Rightarrow> ('a \<Rightarrow> int) \<Rightarrow> 'a list \<Rightarrow> 'a list" where
  "orderBy eng key rows = map (\<lambda>i. rows ! i) (eng (map key rows))"

definition asc :: "('a \<Rightarrow> int) \<Rightarrow> 'a \<Rightarrow> int" where
  "asc col = col"

definition desc :: "('a \<Rightarrow> int) \<Rightarrow> 'a \<Rightarrow> int" where
  "desc col = (\<lambda>r. - col r)"

text \<open>
  Two engines: one keeps rows with equal keys in table order, the other returns them
  in the opposite order.
\<close>

definition stableEngine :: orderEngine where
  "stableEngine ks = sort_key (\<lambda>i. ks ! i) [0..<length ks]"

definition lastFirstEngine :: orderEngine where
  "lastFirstEngine ks = sort_key (\<lambda>i. ks ! i) (rev [0..<length ks])"

text \<open>
  The columns' types reject what does not fit: an \<open>integer\<close> is a signed 32-bit value,
  a \<open>serial\<close> key takes the next value of its sequence, which ends at the largest
  32-bit value, and a \<open>varchar(n)\<close> holds \<open>n\<close> characters (longer input is cut when
  only spaces are lost, and refused otherwise).
\<close>

definition integerColumn :: "int option \<Rightarrow> error + int option" where
  "integerColumn v =
     (case v of
        None \<Rightarrow> Inr None
      | Some i \<Rightarrow> if - 2147483648 \<le> i \<and> i \<le> 2147483647 then Inr (Some i) else Inl DbError)"

definition serialColumn :: "int \<Rightarrow> error + int" where
  "serialColumn nextval = (if nextval \<le> 2147483647 then Inr nextval else Inl DbError)"

definition varcharColumn :: "nat \<Rightarrow> string \<Rightarrow> error + string" where
  "varcharColumn n v =
     (if length v \<le> n then Inr v
      else if list_all (\<lambda>c. c = CHR '' '') (drop n v) then Inr (take n v)
      else Inl DbError)"

section \<open>Data helpers\<close>

text \<open>
  \<open>setHours\<close> works in local time. The model fixes the time zone as an offset \<open>tz\<close>, in
  milliseconds, of local time from UTC (no daylight saving change); \<open>t\<close> is the time
  value of a valid \<open>Date\<close>. The result is the instant of the same local day at
  \<open>h:m:s.ms\<close>.
\<close>

definition setHours :: "int \<Rightarrow> int \<Rightarrow> int \<Rightarrow> int \<Rightarrow> int \<Rightarrow> int \<Rightarrow> int" where
  "setHours tz t h m s ms =
     (let localTime = t + tz
      in localTime - localTime mod 86400000 + h * 3600000 + m * 60000 + s * 1000 + ms - tz)"

record SetDetails =
  sd_id :: int
  sd_setNumber :: int
  sd_reps :: int
  sd_weight :: string

record ExerciseDetails =
  ed_id :: int
  ed_name :: string
  ed_muscleGroup :: "string option"
  ed_orderIndex :: int
  ed_sets :: "SetDetails list"

record WorkoutWithDetails =
  wd_id :: int
  wd_name :: string
  wd_date :: int
  wd_durationMinutes :: "int option"
  wd_exercises :: "ExerciseDetails list"

text \<open>
  What \<open>db.query.workouts.findMany\<close> returns with its \<open>with\<close> clause: each workout with
  its \<open>workoutExercises\<close>, each of them with its \<open>exercise\<close> (the row the foreign key
  names, \<open>None\<close> when there is none) and its \<open>sets\<close>.
\<close>

record WorkoutExerciseRel =
  rel_workoutExercise :: WorkoutExercise
  rel_exercise :: "Exercise option"
  rel_sets :: "SetRow list"

record WorkoutRel =
  rel_workout :: Workout
  rel_workoutExercises :: "WorkoutExerciseRel list"

definition findManyWorkouts ::
  "orderEngine \<Rightarrow> Database \<Rightarrow> (Workout \<Rightarrow> bool) \<Rightarrow> WorkoutRel list" where
  "findManyWorkouts eng db cond =
     map (\<lambda>w.
       \<lparr>rel_workout = w,
        rel_workoutExercises =
          map (\<lambda>we.
            \<lparr>rel_workoutExercise = we,
             rel_exercise = find (\<lambda>e. e_id e = we_exerciseId we) (exercises db),
             rel_sets =
               orderBy eng (asc s_setNumber)
                 (filter (\<lambda>s. s_workoutExerciseId s = we_id we) (sets db))\<rparr>)
            (orderBy eng (asc we_orderIndex)
               (filter (\<lambda>we. we_workoutId we = w_id w) (workoutExercises db)))\<rparr>)
       (orderBy eng (desc w_date) (filter cond (workouts db)))"

text \<open>\<open>Array.prototype.map\<close> with a callback that may throw: the first throw ends the call.\<close>

fun mapE :: "('a \<Rightarrow> error + 'b) \<Rightarrow> 'a list \<Rightarrow> error + 'b list" where
  "mapE f [] = Inr []"
| "mapE f (x # xs) =
     (case f x of
        Inl e \<Rightarrow> Inl e
      | Inr y \<Rightarrow> (case mapE f xs of Inl e \<Rightarrow> Inl e | Inr ys \<Rightarrow> Inr (y # ys)))"

definition toSetDetails :: "SetRow \<Rightarrow> SetDetails" where
  "toSetDetails s =
     \<lparr>sd_id = s_id s, sd_setNumber = s_setNumber s, sd_reps = s_reps s, sd_weight = s_weight s\<rparr>"

text \<open>Reading \<open>we.exercise.id\<close> when \<open>we.exercise\<close> is \<open>null\<close> throws a \<open>TypeError\<close>.\<close>

definition toExerciseDetails :: "WorkoutExerciseRel \<Rightarrow> error + ExerciseDetails" where
  "toExerciseDetails we =
     (case rel_exercise we of
        None \<Rightarrow> Inl TypeError
      | Some exercise \<Rightarrow>
          Inr \<lparr>ed_id = e_id exercise, ed_name = e_name exercise,
               ed_muscleGroup = e_muscleGroup exercise,
               ed_orderIndex = we_orderIndex (rel_workoutExercise we),
               ed_sets = map toSetDetails (rel_sets we)\<rparr>)"

definition toWorkoutWithDetails :: "WorkoutRel \<Rightarrow> error + WorkoutWithDetails" where
  "toWorkoutWithDetails workout =
     (case mapE toExerciseDetails (rel_workoutExercises workout) of
        Inl e \<Rightarrow> Inl e
      | Inr es \<Rightarrow>
          Inr \<lparr>wd_id = w_id (rel_workout workout), wd_name = w_name (rel_workout workout),
               wd_date = w_date (rel_workout workout),
               wd_durationMinutes = w_durationMinutes (rel_workout workout),
               wd_exercises = es\<rparr>)"

definition getWorkoutsByDate ::
  "orderEngine \<Rightarrow> int \<Rightarrow> Database \<Rightarrow> string \<Rightarrow> int \<Rightarrow> error + WorkoutWithDetails list" where
  "getWorkoutsByDate eng tz db userId date =
     (let startOfDay = setHours tz date 0 0 0 0;
          endOfDay = setHours tz date 23 59 59 999;
          workoutData =
            findManyWorkouts eng db
              (\<lambda>w. w_userId w = userId \<and> startOfDay \<le> w_date w \<and> w_date w < endOfDay)
      in mapE toWorkoutWithDetails workoutData)"

text \<open>
  \<open>createWorkoutHelper\<close> inserts one row and returns it. \<open>t1\<close> and \<open>t2\<close> are the two
  readings of \<open>new Date()\<close>. \<open>durationMinutes || null\<close> is \<open>null\<close> for a missing value and
  for \<open>0\<close>.
\<close>

record NewWorkout =
  n_name :: string
  n_date :: int
  n_durationMinutes :: "int option"
  n_userId :: string

definition orNull :: "int option \<Rightarrow> int option" where
  "orNull v = (case v of None \<Rightarrow> None | Some i \<Rightarrow> if i = 0 then None else Some i)"

definition createWorkoutHelper ::
  "int \<Rightarrow> int \<Rightarrow> Database \<Rightarrow> NewWorkout \<Rightarrow> error + Workout \<times> Database" where
  "createWorkoutHelper t1 t2 db data =
     (case varcharColumn 255 (n_name data) of
        Inl e \<Rightarrow> Inl e
      | Inr name \<Rightarrow>
     (case varcharColumn 255 (n_userId data) of
        Inl e \<Rightarrow> Inl e
      | Inr userId \<Rightarrow>
     (case integerColumn (orNull (n_durationMinutes data)) of
        Inl e \<Rightarrow> Inl e
      | Inr durationMinutes \<Rightarrow>
     (case serialColumn (workouts_id_seq db) of
        Inl e \<Rightarrow> Inl e
      | Inr key \<Rightarrow>
          (let workout =
             \<lparr>w_id = key, w_userId = userId, w_name = name,
              w_date = n_date data, w_durationMinutes = durationMinutes,
              w_createdAt = t1, w_updatedAt = t2\<rparr>
           in Inr (workout,
                db\<lparr>workouts := workouts db @ [workout],
                   workouts_id_seq := workouts_id_seq db + 1\<rparr>))))))"

text \<open>
  The query builder behind \<open>db.select().from(table)\<close>. A query holds one condition:
  \<open>.where(c)\<close> sets it, so a second \<open>.where\<close> replaces the first. \<open>.limit(n)\<close> keeps
  the first \<open>n\<close> rows; with no \<open>ORDER BY\<close> these are the first rows the store scans, and
  a table is listed in scan order.
\<close>

record 'r SelectQuery =
  q_from :: "'r list"
  q_where :: "('r \<Rightarrow> bool) option"
  q_limit :: "nat option"

definition selectFrom :: "'r list \<Rightarrow> 'r SelectQuery" where
  "selectFrom table = \<lparr>q_from = table, q_where = None, q_limit = None\<rparr>"

definition whereClause :: "('r \<Rightarrow> bool) \<Rightarrow> 'r SelectQuery \<Rightarrow> 'r SelectQuery" where
  "whereClause cond q = q\<lparr>q_where := Some cond\<rparr>"

definition limitRows :: "nat \<Rightarrow> 'r SelectQuery \<Rightarrow> 'r SelectQuery" where
  "limitRows n q = q\<lparr>q_limit := Some n\<rparr>"

definition eq :: "('r \<Rightarrow> 'v) \<Rightarrow> 'v \<Rightarrow> 'r \<Rightarrow> bool" where
  "eq col v = (\<lambda>r. col r = v)"

definition runQuery :: "'r SelectQuery \<Rightarrow> 'r list" where
  "runQuery q =
     (let rows = (case q_where q of None \<Rightarrow> q_from q | Some cond \<Rightarrow> filter cond (q_from q))
      in case q_limit q of None \<Rightarrow> rows | Some n \<Rightarrow> take n rows)"

text \<open>
  \<open>getWorkoutById\<close> as the data fetching guideline gives it: a select from \<open>workouts\<close>
  with \<open>.where(eq(workouts.id, workoutId))\<close>, then \<open>.where(eq(workouts.userId, userId))\<close>,
  then \<open>.limit(1)\<close>, and \<open>result[0] ?? null\<close>. The id is the integer the key column is
  compared with.
\<close>

definition getWorkoutById :: "Database \<Rightarrow> int \<Rightarrow> string \<Rightarrow> Workout option" where
  "getWorkoutById db workoutId userId =
     (let result =
        runQuery
          (limitRows 1
            (whereClause (eq w_userId userId)
              (whereClause (eq w_id workoutId)
                (selectFrom (workouts db)))))
      in case result of [] \<Rightarrow> None | workout # rest \<Rightarrow> Some workout)"

text \<open>
  Modelled from the spec: the body of \<open>updateWorkoutHelper\<close> (the data helper that the
  update action calls) is not among the source files. The spec has one update
  statement that carries both the workout's id and the user's id as its filter, sets
  name, date and duration, always refreshes the updated timestamp, and returns the
  updated row, or absent when the statement touched no row.
\<close>

record WorkoutUpdate =
  u_name :: string
  u_date :: int
  u_durationMinutes :: "int option"

definition updateWorkoutHelper ::
  "int \<Rightarrow> Database \<Rightarrow> int \<Rightarrow> string \<Rightarrow> WorkoutUpdate \<Rightarrow> error + Workout option \<times> Database" where
  "updateWorkoutHelper now db workoutId userId data =
     (let hit = (\<lambda>w. w_id w = workoutId \<and> w_userId w = userId);
          upd = (\<lambda>w. w\<lparr>w_name := u_name data, w_date := u_date data,
                         w_durationMinutes := u_durationMinutes data, w_updatedAt := now\<rparr>)
      in Inr (map_option upd (find hit (workouts db)),
              db\<lparr>workouts := map (\<lambda>w. if hit w then upd w else w) (workouts db)\<rparr>))"

section \<open>Server actions\<close>

text \<open>
  \<open>auth()\<close> yields the user's id or \<open>null\<close>; \<open>!userId\<close> also holds for the empty string.
  An action returns its result and the store it leaves. An exception inside \<open>try\<close> ends
  in the \<open>catch\<close> branch, with the store as it was. \<open>new Date(s)\<close> of a string that
  \<open>Date.parse\<close> does not read is an invalid date, which the store refuses.
\<close>

definition createWorkout ::
  "(string \<Rightarrow> int option) \<Rightarrow> int \<Rightarrow> int \<Rightarrow> string option \<Rightarrow> Database \<Rightarrow> CreateWorkoutParams \<Rightarrow>
     Workout ActionResult \<times> Database" where
  "createWorkout Date_parse t1 t2 auth db params =
     (case auth of
        None \<Rightarrow> (Failure (Message ''Authentication required''), db)
      | Some userId \<Rightarrow>
          if userId = [] then (Failure (Message ''Authentication required''), db)
          else
            (case createWorkoutSchema Date_parse params of
               Inl fieldErrs \<Rightarrow> (Failure (FieldErrors fieldErrs), db)
             | Inr data \<Rightarrow>
                 (case Date_parse (d_date data) of
                    None \<Rightarrow> (Failure (Message ''Failed to create workout. Please try again.''), db)
                  | Some date \<Rightarrow>
                      (case createWorkoutHelper t1 t2 db
                              \<lparr>n_name = d_name data, n_date = date,
                               n_durationMinutes = d_durationMinutes data, n_userId = userId\<rparr> of
                         Inl e \<Rightarrow> (Failure (Message ''Failed to create workout. Please try again.''), db)
                       | Inr (workout, db') \<Rightarrow> (Success workout, db')))))"

definition updateWorkout ::
  "(string \<Rightarrow> int option) \<Rightarrow> int \<Rightarrow> string option \<Rightarrow> Database \<Rightarrow> UpdateWorkoutParams \<Rightarrow>
     Workout ActionResult \<times> Database" where
  "updateWorkout Date_parse now auth db params =
     (case auth of
        None \<Rightarrow> (Failure (Message ''Authentication required''), db)
      | Some userId \<Rightarrow>
          if userId = [] then (Failure (Message ''Authentication required''), db)
          else
            (case updateWorkoutSchema Date_parse params of
               Inl fieldErrs \<Rightarrow> (Failure (FieldErrors fieldErrs), db)
             | Inr data \<Rightarrow>
                 (case Date_parse (d_date data) of
                    None \<Rightarrow> (Failure (Message ''Failed to update workout. Please try again.''), db)
                  | Some date \<Rightarrow>
                      (case updateWorkoutHelper now db (p_workoutId params) userId
                              \<lparr>u_name = d_name data, u_date = date,
                               u_durationMinutes = d_durationMinutes data\<rparr> of
                         Inl e \<Rightarrow> (Failure (Message ''Failed to update workout. Please try again.''), db)
                       | Inr (None, db') \<Rightarrow>
                           (Failure (Message ''Workout not found or you do not have permission to edit it''), db')
                       | Inr (Some workout, db') \<Rightarrow> (Success workout, db')))))"

text \<open>
  The value of \<open>Date.parse\<close> on the date string of the examples below; the examples use
  no other date.
\<close>

definition exampleDateParse :: "string \<Rightarrow> int option" where
  "exampleDateParse s = (if s = ''2025-09-01'' then Some 1756684800000 else None)"

section \<open>Example data\<close>

definition emptyDatabase :: Database where
  "emptyDatabase =
     \<lparr>exercises = [], workouts = [], workoutExercises = [], sets = [], workouts_id_seq = 1\<rparr>"

definition otherUsersWorkout :: Workout where
  "otherUsersWorkout =
     \<lparr>w_id = 1, w_userId = ''user_b'', w_name = ''Push day'', w_date = 1756684800000,
      w_durationMinutes = Some 60, w_createdAt = 10, w_updatedAt = 10\<rparr>"

definition otherUsersDatabase :: Database where
  "otherUsersDatabase =
     \<lparr>exercises = [], workouts = [otherUsersWorkout], workoutExercises = [], sets = [],
      workouts_id_seq = 2\<rparr>"



definition exampleUpdate :: "int \<Rightarrow> UpdateWorkoutParams" where
  "exampleUpdate i =
     \<lparr>p_name = ''Pull day'', p_date = ''2025-09-01'', p_durationMinutes = Some ''45'',
      p_workoutId = i\<rparr>"

definition lastMillisecondWorkout :: Workout where
  "lastMillisecondWorkout =
     \<lparr>w_id = 1, w_userId = ''user_a'', w_name = ''Late session'', w_date = 1756771199999,
      w_durationMinutes = None, w_createdAt = 10, w_updatedAt = 10\<rparr>"

definition lastMillisecondDatabase :: Database where
  "lastMillisecondDatabase =
     \<lparr>exercises = [], workouts = [lastMillisecondWorkout], workoutExercises = [], sets = [],
      workouts_id_seq = 2\<rparr>"

definition orderingDatabase :: Database where
  "orderingDatabase =
     \<lparr>exercises =
        [\<lparr>e_id = 1, e_name = ''Bench Press'', e_description = None,
          e_muscleGroup = Some ''Chest'', e_createdAt = 1\<rparr>,
         \<lparr>e_id = 2, e_name = ''Squat'', e_description = None,
          e_muscleGroup = Some ''Legs'', e_createdAt = 1\<rparr>,
         \<lparr>e_id = 3, e_name = ''Deadlift'', e_description = None,
          e_muscleGroup = Some ''Back'', e_createdAt = 1\<rparr>],
      workouts =
        [\<lparr>w_id = 1, w_userId = ''user_a'', w_name = ''Full body'', w_date = 1756720800000,
          w_durationMinutes = Some 60, w_createdAt = 10, w_updatedAt = 10\<rparr>],
      workoutExercises =
        [\<lparr>we_id = 1, we_workoutId = 1, we_exerciseId = 1, we_orderIndex = 0, we_createdAt = 10\<rparr>,
         \<lparr>we_id = 2, we_workoutId = 1, we_exerciseId = 2, we_orderIndex = 2, we_createdAt = 10\<rparr>,
         \<lparr>we_id = 3, we_workoutId = 1, we_exerciseId = 3, we_orderIndex = 1, we_createdAt = 10\<rparr>],
      sets =
        [\<lparr>s_id = 1, s_workoutExerciseId = 1, s_setNumber = 2, s_reps = 8, s_weight = ''185.50'',
          s_createdAt = 10\<rparr>,
         \<lparr>s_id = 2, s_workoutExerciseId = 1, s_setNumber = 1, s_reps = 10, s_weight = ''175.00'',
          s_createdAt = 10\<rparr>],
      workouts_id_seq = 2\<rparr>"

definition sameDateDatabase :: Database where
  "sameDateDatabase =
     \<lparr>exercises = [],
      workouts =
        [\<lparr>w_id = 1, w_userId = ''user_a'', w_name = ''Morning'', w_date = 1756720800000,
          w_durationMinutes = None, w_createdAt = 10, w_updatedAt = 10\<rparr>,
         \<lparr>w_id = 2, w_userId = ''user_a'', w_name = ''Evening'', w_date = 1756720800000,
          w_durationMinutes = None, w_createdAt = 20, w_updatedAt = 20\<rparr>],
      workoutExercises = [], sets = [], workouts_id_seq = 3\<rparr>"

definition orderingResult :: "WorkoutWithDetails list" where
  "orderingResult =
     [\<lparr>wd_id = 1, wd_name = ''Full body'', wd_date = 1756720800000, wd_durationMinutes = Some 60,
       wd_exercises =
         [\<lparr>ed_id = 1, ed_name = ''Bench Press'', ed_muscleGroup = Some ''Chest'', ed_orderIndex = 0,
           ed_sets =
             [\<lparr>sd_id = 2, sd_setNumber = 1, sd_reps = 10, sd_weight = ''175.00''\<rparr>,
              \<lparr>sd_id = 1, sd_setNumber = 2, sd_reps = 8, sd_weight = ''185.50''\<rparr>]\<rparr>,
          \<lparr>ed_id = 3, ed_name = ''Deadlift'', ed_muscleGroup = Some ''Back'', ed_orderIndex = 1,
           ed_sets = []\<rparr>,
          \<lparr>ed_id = 2, ed_name = ''Squat'', ed_muscleGroup = Some ''Legs'', ed_orderIndex = 2,
           ed_sets = []\<rparr>]\<rparr>]"

section \<open>Evaluation rules\<close>

text \<open>
  The recursive helpers are unfolded only where their argument decides the branch, so
  that evaluation on numerals terminates.
\<close>

lemma bitLength_nonpos: "m \<le> 0 \<Longrightarrow> bitLength m = 0"
  by (simp add: bitLength.simps)

lemma bitLength_pos: "0 < m \<Longrightarrow> bitLength m = 1 + bitLength (m div 2)"
  by (subst bitLength.simps) simp

lemma normalise_nonpos: "m \<le> 0 \<Longrightarrow> normalise m e = (0, 0)"
  by (simp add: normalise.simps)

lemma normalise_even: "0 < m \<Longrightarrow> even m \<Longrightarrow> normalise m e = normalise (m div 2) (e + 1)"
  by (subst normalise.simps) simp

lemma normalise_odd: "0 < m \<Longrightarrow> odd m \<Longrightarrow> normalise m e = (m, e)"
  by (subst normalise.simps) simp

lemmas number_eval =
  roundBinary64_def roundShift_def finiteOrInfinity_def ofDecimal_def ofInt_def
  bitLength_nonpos bitLength_pos normalise_nonpos normalise_even normalise_odd Let_def

lemmas string_eval =
  parseFloat_def parseInt_def exponentPart_def digitsValue_def isDecimalDigit_def
  isStrWhiteSpaceChar_def

lemma LBS_TO_KG_eval: "LBS_TO_KG = Finite False 1021398381089119 (- 51)"
  by (simp add: LBS_TO_KG_def number_eval)

lemma KG_TO_LBS_eval: "KG_TO_LBS = Finite False 4964362905246771 (- 51)"
  by (simp add: KG_TO_LBS_def number_eval)

lemma ofInt_0: "ofInt 0 = Finite False 0 0"
  by (simp add: number_eval)

lemma ofInt_1: "ofInt 1 = Finite False 1 0"
  by (simp add: number_eval)

lemma ofInt_100: "ofInt 100 = Finite False 25 2"
  by (simp add: number_eval)

lemma finiteOrInfinity_not_NaN: "finiteOrInfinity sg m e \<noteq> NaN"
  by (simp add: finiteOrInfinity_def split: prod.splits)

lemma roundBinary64_not_NaN: "roundBinary64 sg m e sticky \<noteq> NaN"
  by (simp add: roundBinary64_def Let_def finiteOrInfinity_not_NaN)

lemma times_number_not_NaN:
  "x \<noteq> NaN \<Longrightarrow> n \<noteq> 0 \<Longrightarrow> times_number x (Finite t n f) \<noteq> NaN"
  by (cases x) (simp_all add: roundBinary64_not_NaN)

section \<open>Properties of the weight utilities\<close>

text \<open>
  C5. For every numeric weight \<open>w\<close> other than \<open>NaN\<close> and every unit \<open>u\<close> (in particular
  \<open>'lbs'\<close> and \<open>'kg'\<close>), \<open>convertWeight(w, u, u)\<close> is \<open>w\<close> itself: equal units return the
  input unchanged, and no multiplication is applied.
\<close>

theorem convertWeight_same_unit:
  assumes "\<not> isNaN w"
  shows "convertWeight (Num w) u u = w"
  using assms by (simp add: convertWeight_def)

theorem convertWeight_same_unit_witness:
  "convertWeight (Num (Finite False 371 (- 1))) ''kg'' ''kg'' = Finite False 371 (- 1)"
  using convertWeight_same_unit [of "Finite False 371 (- 1)" "''kg''"]
  by (simp add: isNaN_def)

text \<open>
  C6. The two directions of \<open>convertWeight\<close> are not inverse to each other: the product
  of the constants \<open>LBS_TO_KG\<close> and \<open>KG_TO_LBS\<close> is not \<open>1\<close>, and the positive weight
  \<open>100\<close>, converted from pounds to kilograms and back, does not come back as \<open>100\<close>; it
  has lost between \<open>0.0002%\<close> and \<open>0.000201%\<close> of its value.
\<close>

theorem convertWeight_round_trip_drift:
  "times_number LBS_TO_KG KG_TO_LBS \<noteq> ofInt 1 \<and>
   convertWeight (Num (convertWeight (Num (ofInt 100)) ''lbs'' ''kg'')) ''kg'' ''lbs'' \<noteq> ofInt 100 \<and>
   0 < valueOf (ofInt 100) \<and>
   2 / 10 ^ 6 < (valueOf (ofInt 100) -
      valueOf (convertWeight (Num (convertWeight (Num (ofInt 100)) ''lbs'' ''kg'')) ''kg'' ''lbs''))
      / valueOf (ofInt 100) \<and>
   (valueOf (ofInt 100) -
      valueOf (convertWeight (Num (convertWeight (Num (ofInt 100)) ''lbs'' ''kg'')) ''kg'' ''lbs''))
      / valueOf (ofInt 100) < 201 / 10 ^ 8"
proof -
  have p: "times_number LBS_TO_KG KG_TO_LBS = Finite False 9007181195666773 (- 53)"
    by (simp add: LBS_TO_KG_eval KG_TO_LBS_eval number_eval)
  have a: "convertWeight (Num (ofInt 100)) ''lbs'' ''kg'' = Finite False 3191869940903497 (- 46)"
    by (simp add: convertWeight_def isNaN_def ofInt_100 LBS_TO_KG_eval number_eval)
  have b: "convertWeight (Num (Finite False 3191869940903497 (- 46))) ''kg'' ''lbs'' =
      Finite False 7036860309114667 (- 46)"
    by (simp add: convertWeight_def isNaN_def KG_TO_LBS_eval number_eval)
  show ?thesis
    unfolding a b p by (simp add: ofInt_100 ofInt_1)
qed

lemma takeWhile_no_digit:
  "list_all (\<lambda>c. \<not> isDecimalDigit c) u \<Longrightarrow> takeWhile isDecimalDigit u = []"
  by (cases u) simp_all

lemma dropWhile_no_digit:
  "list_all (\<lambda>c. \<not> isDecimalDigit c) u \<Longrightarrow> dropWhile isDecimalDigit u = u"
  by (cases u) simp_all

lemma list_all_dropWhile: "list_all P xs \<Longrightarrow> list_all P (dropWhile Q xs)"
  by (induction xs) simp_all

lemma parseFloat_no_digit:
  assumes "list_all (\<lambda>c. \<not> isDecimalDigit c \<and> c \<noteq> CHR ''I'') s"
  shows "parseFloat s = NaN"
proof -
  define t where "t = dropWhile isStrWhiteSpaceChar s"
  define u where "u = (case t of [] \<Rightarrow> t | c # r \<Rightarrow> if c = CHR ''+'' \<or> c = CHR ''-'' then r else t)"
  from assms have t: "list_all (\<lambda>c. \<not> isDecimalDigit c \<and> c \<noteq> CHR ''I'') t"
    unfolding t_def by (rule list_all_dropWhile)
  then have u: "list_all (\<lambda>c. \<not> isDecimalDigit c \<and> c \<noteq> CHR ''I'') u"
    by (cases t) (simp_all add: u_def)
  then have nd: "list_all (\<lambda>c. \<not> isDecimalDigit c) u"
    by (simp add: list_all_iff)
  have inf: "take 8 u \<noteq> ''Infinity''"
  proof
    assume "take 8 u = ''Infinity''"
    then have "CHR ''I'' \<in> set (take 8 u)"
      by simp
    then have "CHR ''I'' \<in> set u"
      by (rule in_set_takeD)
    with u show False
      by (auto simp: list_all_iff)
  qed
  have ip: "takeWhile isDecimalDigit u = []"
    using nd by (rule takeWhile_no_digit)
  have r1: "dropWhile isDecimalDigit u = u"
    using nd by (rule dropWhile_no_digit)
  have fp: "(case u of [] \<Rightarrow> [] | c # r \<Rightarrow> if c = CHR ''.'' then takeWhile isDecimalDigit r else []) = []"
    using nd by (cases u) (simp_all add: takeWhile_no_digit)
  show ?thesis
    unfolding parseFloat_def Let_def t_def [symmetric] u_def [symmetric]
    by (simp add: inf ip r1 fp)
qed

text \<open>
  C7. For every weight, number or string, and every pair of units, \<open>convertWeight\<close>
  returns a number that is not \<open>NaN\<close>; the function has no failing branch. When the
  input is \<open>NaN\<close>, or a string that \<open>parseFloat\<close> reads as \<open>NaN\<close>, the result is the
  number \<open>0\<close>; this is so for every string that holds no decimal digit and no letter
  \<open>I\<close>.
\<close>

theorem convertWeight_never_throws:
  "\<not> isNaN (convertWeight w f t) \<and>
   (isNaN (case w of Str s \<Rightarrow> parseFloat s | Num n \<Rightarrow> n) \<longrightarrow> convertWeight w f t = ofInt 0) \<and>
   (\<forall>s. w = Str s \<and> list_all (\<lambda>c. \<not> isDecimalDigit c \<and> c \<noteq> CHR ''I'') s \<longrightarrow>
        convertWeight w f t = ofInt 0)"
proof (intro conjI allI impI)
  show "\<not> isNaN (convertWeight w f t)"
    by (simp add: convertWeight_def isNaN_def ofInt_0 LBS_TO_KG_eval KG_TO_LBS_eval
        times_number_not_NaN Let_def)
next
  assume "isNaN (case w of Str s \<Rightarrow> parseFloat s | Num n \<Rightarrow> n)"
  then show "convertWeight w f t = ofInt 0"
    by (simp add: convertWeight_def Let_def)
next
  fix s
  assume "w = Str s \<and> list_all (\<lambda>c. \<not> isDecimalDigit c \<and> c \<noteq> CHR ''I'') s"
  then have "w = Str s" and "parseFloat s = NaN"
    by (simp_all add: parseFloat_no_digit)
  then show "convertWeight w f t = ofInt 0"
    by (simp add: convertWeight_def isNaN_def Let_def)
qed

theorem convertWeight_never_throws_witness:
  "convertWeight (Str ''abc'') ''lbs'' ''kg'' = ofInt 0 \<and>
   convertWeight (Num NaN) ''kg'' ''lbs'' = ofInt 0"
  using convertWeight_never_throws [of "Str ''abc''" "''lbs''" "''kg''"]
    convertWeight_never_throws [of "Num NaN" "''kg''" "''lbs''"]
  by (simp add: isNaN_def isDecimalDigit_def)

section \<open>Properties of the preference getter\<close>

text \<open>
  C8. For every cookie store, \<open>getWeightUnitPreference\<close> returns \<open>'lbs'\<close> when the cookie
  \<open>weight-unit\<close> is absent and when its value is neither \<open>'lbs'\<close> nor \<open>'kg'\<close>; it returns
  the stored value when that is \<open>'lbs'\<close> or \<open>'kg'\<close>; the result is always one of the two.
\<close>

theorem getWeightUnitPreference_default:
  "(cookieStore ''weight-unit'' = None \<longrightarrow> getWeightUnitPreference cookieStore = ''lbs'') \<and>
   (\<forall>v. cookieStore ''weight-unit'' = Some v \<and> v \<noteq> ''lbs'' \<and> v \<noteq> ''kg'' \<longrightarrow>
        getWeightUnitPreference cookieStore = ''lbs'') \<and>
   (\<forall>v. cookieStore ''weight-unit'' = Some v \<and> (v = ''lbs'' \<or> v = ''kg'') \<longrightarrow>
        getWeightUnitPreference cookieStore = v) \<and>
   (getWeightUnitPreference cookieStore = ''lbs'' \<or> getWeightUnitPreference cookieStore = ''kg'')"
  by (auto simp: getWeightUnitPreference_def isValidWeightUnit_def COOKIE_NAME_def
      DEFAULT_UNIT_def Let_def split: option.splits)

theorem getWeightUnitPreference_default_witness:
  "getWeightUnitPreference Map.empty = ''lbs'' \<and>
   getWeightUnitPreference [''weight-unit'' \<mapsto> ''stone''] = ''lbs'' \<and>
   getWeightUnitPreference [''weight-unit'' \<mapsto> ''kg''] = ''kg''"
  using getWeightUnitPreference_default [of Map.empty]
    getWeightUnitPreference_default [of "[''weight-unit'' \<mapsto> ''stone'']"]
    getWeightUnitPreference_default [of "[''weight-unit'' \<mapsto> ''kg'']"]
  by simp

section \<open>Properties of the validation\<close>

lemma parseInt_blank: "list_all isStrWhiteSpaceChar s \<Longrightarrow> parseInt s = None"
proof -
  assume "list_all isStrWhiteSpaceChar s"
  then have d: "dropWhile isStrWhiteSpaceChar s = []"
    by (simp add: list_all_iff)
  show ?thesis
    unfolding parseInt_def Let_def d by simp
qed

lemma durationMinutesTransform_eq:
  "durationMinutesTransform v = (case v of None \<Rightarrow> None | Some s \<Rightarrow> parseInt s)"
  by (simp add: durationMinutesTransform_def parseInt_def split: option.splits)

text \<open>
  C3, as the claim states it, fails: the schemas accept \<open>'-5'\<close> and pass on the integer
  \<open>-5\<close>, and they accept \<open>'abc'\<close>, which they treat as not provided.
\<close>

theorem durationMinutes_not_positive_accepted:
  "updateWorkoutSchema exampleDateParse
     \<lparr>p_name = ''Leg day'', p_date = ''2025-09-01'', p_durationMinutes = Some ''-5''\<rparr> =
   Inr \<lparr>d_name = ''Leg day'', d_date = ''2025-09-01'', d_durationMinutes = Some (- 5)\<rparr> \<and>
   createWorkoutSchema exampleDateParse
     \<lparr>p_name = ''Leg day'', p_date = ''2025-09-01'', p_durationMinutes = Some ''-5''\<rparr> =
   Inr \<lparr>d_name = ''Leg day'', d_date = ''2025-09-01'', d_durationMinutes = Some (- 5)\<rparr> \<and>
   \<not> (0 :: int) < - 5 \<and>
   updateWorkoutSchema exampleDateParse
     \<lparr>p_name = ''Leg day'', p_date = ''2025-09-01'', p_durationMinutes = Some ''abc''\<rparr> =
   Inr \<lparr>d_name = ''Leg day'', d_date = ''2025-09-01'', d_durationMinutes = None\<rparr> \<and>
   parseInt ''abc'' = None"
  by (simp add: updateWorkoutSchema_def createWorkoutSchema_def nameIssues_def dateIssues_def
      exampleDateParse_def durationMinutesTransform_def string_eval)

text \<open>
  C3, amended. For every input of the create and the update schema (the two agree),
  the field \<open>durationMinutes\<close> never gets a validation message. When validation
  succeeds, a missing string, a string of white space only (the empty one included)
  and a string from which \<open>parseInt\<close> reads no integer are all coerced to not provided,
  and a string from which \<open>parseInt\<close> reads a positive integer yields that integer.
\<close>

theorem durationMinutes_validation:
  "(case updateWorkoutSchema Date_parse params of
      Inl errs \<Rightarrow> ''durationMinutes'' \<notin> fst ` set errs
    | Inr d \<Rightarrow>
        (p_durationMinutes params = None \<longrightarrow> d_durationMinutes d = None) \<and>
        (\<forall>s. p_durationMinutes params = Some s \<and> list_all isStrWhiteSpaceChar s \<longrightarrow>
             d_durationMinutes d = None) \<and>
        (\<forall>s. p_durationMinutes params = Some s \<and> parseInt s = None \<longrightarrow>
             d_durationMinutes d = None) \<and>
        (\<forall>s n. p_durationMinutes params = Some s \<and> parseInt s = Some n \<and> 0 < n \<longrightarrow>
             d_durationMinutes d = Some n)) \<and>
   createWorkoutSchema Date_parse params = updateWorkoutSchema Date_parse params"
  by (auto simp: updateWorkoutSchema_def createWorkoutSchema_def durationMinutesTransform_eq
      parseInt_blank Let_def split: sum.splits if_splits)

theorem durationMinutes_validation_witness:
  "map_sum id d_durationMinutes (updateWorkoutSchema exampleDateParse
     \<lparr>p_name = ''Leg day'', p_date = ''2025-09-01'', p_durationMinutes = Some ''  ''\<rparr>) = Inr None \<and>
   map_sum id d_durationMinutes (createWorkoutSchema exampleDateParse
     \<lparr>p_name = ''Leg day'', p_date = ''2025-09-01'', p_durationMinutes = None\<rparr>) = Inr None \<and>
   map_sum id d_durationMinutes (updateWorkoutSchema exampleDateParse
     \<lparr>p_name = ''Leg day'', p_date = ''2025-09-01'', p_durationMinutes = Some ''45''\<rparr>) = Inr (Some 45) \<and>
   updateWorkoutSchema exampleDateParse
     \<lparr>p_name = '''', p_date = ''tomorrow'', p_durationMinutes = Some ''abc''\<rparr> =
     Inl [(''name'', [''Workout name is required'']), (''date'', [''Invalid date format''])]"
  using
    durationMinutes_validation [where Date_parse = exampleDateParse and params =
      "\<lparr>p_name = ''Leg day'', p_date = ''2025-09-01'', p_durationMinutes = Some ''  ''\<rparr>"]
    durationMinutes_validation [where Date_parse = exampleDateParse and params =
      "\<lparr>p_name = ''Leg day'', p_date = ''2025-09-01'', p_durationMinutes = None\<rparr>"]
    durationMinutes_validation [where Date_parse = exampleDateParse and params =
      "\<lparr>p_name = ''Leg day'', p_date = ''2025-09-01'', p_durationMinutes = Some ''45''\<rparr>"]
    durationMinutes_validation [where Date_parse = exampleDateParse and params =
      "\<lparr>p_name = '''', p_date = ''tomorrow'', p_durationMinutes = Some ''abc''\<rparr>"]
  by (simp add: updateWorkoutSchema_def createWorkoutSchema_def nameIssues_def dateIssues_def
      exampleDateParse_def durationMinutesTransform_def string_eval)

section \<open>Properties of the data helpers\<close>

lemma createWorkoutHelper_returns:
  assumes "length (n_name data) \<le> 255" and "length (n_userId data) \<le> 255"
    and "\<forall>i. n_durationMinutes data = Some i \<longrightarrow> - 2147483648 \<le> i \<and> i \<le> 2147483647"
    and "workouts_id_seq db \<le> 2147483647"
  shows "\<exists>w db'. createWorkoutHelper t1 t2 db data = Inr (w, db')"
  using assms
  by (auto simp: createWorkoutHelper_def varcharColumn_def integerColumn_def serialColumn_def
      orNull_def Let_def split: option.splits)

lemma createWorkoutHelper_example:
  "createWorkoutHelper 10 11 emptyDatabase
     \<lparr>n_name = ''Leg day'', n_date = 1756684800000, n_durationMinutes = Some 0, n_userId = ''user_a''\<rparr> =
   Inr (\<lparr>w_id = 1, w_userId = ''user_a'', w_name = ''Leg day'', w_date = 1756684800000,
          w_durationMinutes = None, w_createdAt = 10, w_updatedAt = 11\<rparr>,
        \<lparr>exercises = [], workouts =
           [\<lparr>w_id = 1, w_userId = ''user_a'', w_name = ''Leg day'', w_date = 1756684800000,
             w_durationMinutes = None, w_createdAt = 10, w_updatedAt = 11\<rparr>],
         workoutExercises = [], sets = [], workouts_id_seq = 2\<rparr>)"
  by (simp add: createWorkoutHelper_def varcharColumn_def integerColumn_def serialColumn_def
      orNull_def emptyDatabase_def Let_def)

lemma createWorkoutHelper_example_45:
  "createWorkoutHelper 10 11 emptyDatabase
     \<lparr>n_name = ''Leg day'', n_date = 1756684800000, n_durationMinutes = Some 45, n_userId = ''user_a''\<rparr> =
   Inr (\<lparr>w_id = 1, w_userId = ''user_a'', w_name = ''Leg day'', w_date = 1756684800000,
          w_durationMinutes = Some 45, w_createdAt = 10, w_updatedAt = 11\<rparr>,
        \<lparr>exercises = [], workouts =
           [\<lparr>w_id = 1, w_userId = ''user_a'', w_name = ''Leg day'', w_date = 1756684800000,
             w_durationMinutes = Some 45, w_createdAt = 10, w_updatedAt = 11\<rparr>],
         workoutExercises = [], sets = [], workouts_id_seq = 2\<rparr>)"
  by (simp add: createWorkoutHelper_def varcharColumn_def integerColumn_def serialColumn_def
      orNull_def emptyDatabase_def Let_def)

text \<open>
  C10. For every create input that fits the columns (name and user id of at most 255
  characters, a duration within the 32-bit integer range, a key sequence not used
  up), \<open>createWorkoutHelper\<close> stores a row. Whenever it stores a row, the row's
  \<open>durationMinutes\<close> is \<open>null\<close> if the supplied value is missing or \<open>0\<close>, and the supplied
  value otherwise; it is never \<open>0\<close>. The row returned is the row appended to the table.
\<close>

theorem createWorkoutHelper_duration:
  "(length (n_name data) \<le> 255 \<and> length (n_userId data) \<le> 255 \<and>
    (case n_durationMinutes data of
       None \<Rightarrow> True
     | Some i \<Rightarrow> - 2147483648 \<le> i \<and> i \<le> 2147483647) \<and>
    workouts_id_seq db \<le> 2147483647 \<longrightarrow>
      (\<exists>w db'. createWorkoutHelper t1 t2 db data = Inr (w, db'))) \<and>
   (\<forall>w db'. createWorkoutHelper t1 t2 db data = Inr (w, db') \<longrightarrow>
      w_durationMinutes w =
        (if n_durationMinutes data = None \<or> n_durationMinutes data = Some 0 then None
         else n_durationMinutes data) \<and>
      w_durationMinutes w \<noteq> Some 0 \<and>
      workouts db' = workouts db @ [w])"
proof (intro conjI impI allI)
  assume "length (n_name data) \<le> 255 \<and> length (n_userId data) \<le> 255 \<and>
    (case n_durationMinutes data of
       None \<Rightarrow> True
     | Some i \<Rightarrow> - 2147483648 \<le> i \<and> i \<le> 2147483647) \<and>
    workouts_id_seq db \<le> 2147483647"
  then show "\<exists>w db'. createWorkoutHelper t1 t2 db data = Inr (w, db')"
    by (intro createWorkoutHelper_returns) (auto split: option.splits)
next
  fix w db'
  assume r: "createWorkoutHelper t1 t2 db data = Inr (w, db')"
  then show "w_durationMinutes w =
        (if n_durationMinutes data = None \<or> n_durationMinutes data = Some 0 then None
         else n_durationMinutes data)"
    by (auto simp: createWorkoutHelper_def varcharColumn_def integerColumn_def serialColumn_def
        orNull_def Let_def split: sum.splits option.splits if_splits)
  from r show "w_durationMinutes w \<noteq> Some 0"
    by (auto simp: createWorkoutHelper_def varcharColumn_def integerColumn_def serialColumn_def
        orNull_def Let_def split: sum.splits option.splits if_splits)
  from r show "workouts db' = workouts db @ [w]"
    by (auto simp: createWorkoutHelper_def varcharColumn_def integerColumn_def serialColumn_def
        orNull_def Let_def split: sum.splits option.splits if_splits)
qed

theorem createWorkoutHelper_duration_witness:
  "map_sum id (w_durationMinutes \<circ> fst)
     (createWorkoutHelper 10 11 emptyDatabase
        \<lparr>n_name = ''Leg day'', n_date = 1756684800000, n_durationMinutes = Some 0,
         n_userId = ''user_a''\<rparr>) = Inr None \<and>
   map_sum id (w_durationMinutes \<circ> fst)
     (createWorkoutHelper 10 11 emptyDatabase
        \<lparr>n_name = ''Leg day'', n_date = 1756684800000, n_durationMinutes = Some 45,
         n_userId = ''user_a''\<rparr>) = Inr (Some 45) \<and>
   (\<exists>w db'. createWorkoutHelper 10 11 emptyDatabase
        \<lparr>n_name = ''Leg day'', n_date = 1756684800000, n_durationMinutes = Some 45,
         n_userId = ''user_a''\<rparr> = Inr (w, db'))"
proof -
  let ?d0 = "\<lparr>n_name = ''Leg day'', n_date = 1756684800000, n_durationMinutes = Some 0,
         n_userId = ''user_a''\<rparr>"
  let ?d45 = "\<lparr>n_name = ''Leg day'', n_date = 1756684800000, n_durationMinutes = Some 45,
         n_userId = ''user_a''\<rparr>"
  have fits: "length (n_name ?d45) \<le> 255 \<and> length (n_userId ?d45) \<le> 255 \<and>
    (case n_durationMinutes ?d45 of
       None \<Rightarrow> True
     | Some i \<Rightarrow> - 2147483648 \<le> i \<and> i \<le> 2147483647) \<and>
    workouts_id_seq emptyDatabase \<le> 2147483647"
    by (simp add: emptyDatabase_def)
  from createWorkoutHelper_duration [of ?d45 emptyDatabase 10 11] fits
  have ex: "\<exists>w db'. createWorkoutHelper 10 11 emptyDatabase ?d45 = Inr (w, db')"
    by blast
  then obtain w db' where r: "createWorkoutHelper 10 11 emptyDatabase ?d45 = Inr (w, db')"
    by blast
  with createWorkoutHelper_duration [of ?d45 emptyDatabase 10 11]
  have "w_durationMinutes w = Some 45"
    by simp
  with r have a: "map_sum id (w_durationMinutes \<circ> fst)
      (createWorkoutHelper 10 11 emptyDatabase ?d45) = Inr (Some 45)"
    by simp
  have b: "map_sum id (w_durationMinutes \<circ> fst)
      (createWorkoutHelper 10 11 emptyDatabase ?d0) = Inr None"
    by (simp add: createWorkoutHelper_example)
  from a b ex show ?thesis
    by blast
qed

lemma no_row_of_other_user:
  assumes "distinct (map w_id ws)" and "w \<in> set ws" and "w_userId w \<noteq> u"
  shows "\<forall>x \<in> set ws. \<not> (w_id x = w_id w \<and> w_userId x = u)"
proof
  fix x
  assume x: "x \<in> set ws"
  show "\<not> (w_id x = w_id w \<and> w_userId x = u)"
  proof
    assume h: "w_id x = w_id w \<and> w_userId x = u"
    from assms(1) have "inj_on w_id (set ws)"
      by (simp add: distinct_map)
    with x assms(2) h have "x = w"
      by (auto dest: inj_onD)
    with h assms(3) show False
      by simp
  qed
qed

lemma no_row_of_unknown_id:
  assumes "i \<notin> w_id ` set ws"
  shows "\<forall>x \<in> set ws. \<not> (w_id x = i \<and> w_userId x = u)"
  using assms by auto

lemma find_miss: "\<forall>x \<in> set xs. \<not> P x \<Longrightarrow> find P xs = None"
  by (simp add: find_None_iff)

lemma map_miss: "\<forall>x \<in> set xs. \<not> P x \<Longrightarrow> map (\<lambda>x. if P x then f x else x) xs = xs"
  by (induction xs) auto

lemma first_of_filter:
  "(case take (Suc 0) (filter P xs) of [] \<Rightarrow> None | x # rest \<Rightarrow> Some x) = find P xs"
  by (induction xs) simp_all

lemma getWorkoutById_eq:
  "getWorkoutById db workoutId userId = find (\<lambda>w. w_userId w = userId) (workouts db)"
  by (simp add: getWorkoutById_def runQuery_def limitRows_def whereClause_def selectFrom_def
      eq_def Let_def first_of_filter)

lemma getWorkoutById_owner:
  assumes "getWorkoutById db workoutId userId = Some r"
  shows "r \<in> set (workouts db) \<and> w_userId r = userId"
  using assms by (auto simp: getWorkoutById_eq find_Some_iff)

lemma getWorkoutById_absent:
  "getWorkoutById db workoutId userId = None \<longleftrightarrow>
     (\<forall>w \<in> set (workouts db). w_userId w \<noteq> userId)"
  by (auto simp: getWorkoutById_eq find_None_iff)


section \<open>Properties of the update action\<close>

lemma updateWorkoutHelper_miss:
  assumes "\<forall>x \<in> set (workouts db). \<not> (w_id x = i \<and> w_userId x = u)"
  shows "updateWorkoutHelper now db i u data = Inr (None, db)"
  using assms by (simp add: updateWorkoutHelper_def Let_def find_miss map_miss)

lemma updateWorkout_miss:
  assumes "u \<noteq> []"
    and "updateWorkoutSchema Date_parse params = Inr d"
    and "\<forall>x \<in> set (workouts db). \<not> (w_id x = p_workoutId params \<and> w_userId x = u)"
  shows "updateWorkout Date_parse now (Some u) db params =
           (Failure (Message ''Workout not found or you do not have permission to edit it''), db)"
proof -
  from assms(2) have "Date_parse (d_date d) \<noteq> None"
    by (auto simp: updateWorkoutSchema_def dateIssues_def Let_def split: if_splits)
  then obtain t where "Date_parse (d_date d) = Some t"
    by auto
  with assms show ?thesis
    by (simp add: updateWorkout_def updateWorkoutHelper_miss)
qed

lemma updateWorkoutSchema_example:
  "updateWorkoutSchema exampleDateParse (exampleUpdate i) =
   Inr \<lparr>d_name = ''Pull day'', d_date = ''2025-09-01'', d_durationMinutes = Some 45\<rparr>"
  by (simp add: exampleUpdate_def updateWorkoutSchema_def nameIssues_def dateIssues_def
      exampleDateParse_def durationMinutesTransform_def string_eval)

text \<open>
  C9. Take two runs of \<open>updateWorkout\<close>, each by a signed-in user and with input that
  passes validation. The first names a workout that the store holds (under a unique
  id) for another user; the second names an id that no workout of its store has. Then
  both runs return the same result, the single message \<open>Workout not found or you do
  not have permission to edit it\<close>, which is not of the field-keyed shape of validation
  errors, and both leave their store as it was.
\<close>

theorem updateWorkout_not_found_uniform:
  assumes "A1 \<noteq> []"
    and "updateWorkoutSchema Date_parse p1 = Inr d1"
    and "distinct (map w_id (workouts db1))"
    and "w \<in> set (workouts db1)"
    and "w_id w = p_workoutId p1"
    and "w_userId w \<noteq> A1"
    and "A2 \<noteq> []"
    and "updateWorkoutSchema Date_parse p2 = Inr d2"
    and "p_workoutId p2 \<notin> w_id ` set (workouts db2)"
  shows "fst (updateWorkout Date_parse now1 (Some A1) db1 p1) =
           fst (updateWorkout Date_parse now2 (Some A2) db2 p2) \<and>
         fst (updateWorkout Date_parse now1 (Some A1) db1 p1) =
           Failure (Message ''Workout not found or you do not have permission to edit it'') \<and>
         (\<forall>fieldErrs. fst (updateWorkout Date_parse now1 (Some A1) db1 p1) \<noteq>
            Failure (FieldErrors fieldErrs)) \<and>
         snd (updateWorkout Date_parse now1 (Some A1) db1 p1) = db1 \<and>
         snd (updateWorkout Date_parse now2 (Some A2) db2 p2) = db2"
proof -
  from assms(3,4,6) have "\<forall>x \<in> set (workouts db1). \<not> (w_id x = w_id w \<and> w_userId x = A1)"
    by (rule no_row_of_other_user)
  with assms(5) have m1:
    "\<forall>x \<in> set (workouts db1). \<not> (w_id x = p_workoutId p1 \<and> w_userId x = A1)"
    by simp
  from assms(9) have m2:
    "\<forall>x \<in> set (workouts db2). \<not> (w_id x = p_workoutId p2 \<and> w_userId x = A2)"
    by (rule no_row_of_unknown_id)
  have r1: "updateWorkout Date_parse now1 (Some A1) db1 p1 =
      (Failure (Message ''Workout not found or you do not have permission to edit it''), db1)"
    using assms(1,2) m1 by (rule updateWorkout_miss)
  have r2: "updateWorkout Date_parse now2 (Some A2) db2 p2 =
      (Failure (Message ''Workout not found or you do not have permission to edit it''), db2)"
    using assms(7,8) m2 by (rule updateWorkout_miss)
  show ?thesis
    by (simp add: r1 r2)
qed

theorem updateWorkout_not_found_uniform_witness:
  "fst (updateWorkout exampleDateParse 20 (Some ''user_a'') otherUsersDatabase (exampleUpdate 1)) =
   fst (updateWorkout exampleDateParse 30 (Some ''user_a'') otherUsersDatabase (exampleUpdate 99)) \<and>
   updateWorkout exampleDateParse 20 (Some ''user_a'') otherUsersDatabase (exampleUpdate 1) =
   (Failure (Message ''Workout not found or you do not have permission to edit it''),
    otherUsersDatabase)"
proof -
  have h1: "''user_a'' \<noteq> []"
    by simp
  have h3: "distinct (map w_id (workouts otherUsersDatabase))"
    by (simp add: otherUsersDatabase_def)
  have h4: "otherUsersWorkout \<in> set (workouts otherUsersDatabase)"
    by (simp add: otherUsersDatabase_def)
  have h5: "w_id otherUsersWorkout = p_workoutId (exampleUpdate 1)"
    by (simp add: otherUsersWorkout_def exampleUpdate_def)
  have h6: "w_userId otherUsersWorkout \<noteq> ''user_a''"
    by (simp add: otherUsersWorkout_def)
  have h9: "p_workoutId (exampleUpdate 99) \<notin> w_id ` set (workouts otherUsersDatabase)"
    by (simp add: otherUsersDatabase_def otherUsersWorkout_def exampleUpdate_def)
  from updateWorkout_not_found_uniform
    [OF h1 updateWorkoutSchema_example h3 h4 h5 h6 h1 updateWorkoutSchema_example h9, of 20 30]
  show ?thesis
    by (metis prod.collapse)
qed

section \<open>Properties of the query by date\<close>

lemma engine_ok_stableEngine: "engine_ok stableEngine"
  by (simp add: engine_ok_def stableEngine_def)

lemma engine_ok_lastFirstEngine: "engine_ok lastFirstEngine"
  by (simp add: engine_ok_def lastFirstEngine_def)

lemma engine_indices:
  assumes "engine_ok eng"
  shows "set (eng ks) = {0..<length ks}"
proof -
  from assms have "mset (eng ks) = mset [0..<length ks]"
    by (simp add: engine_ok_def)
  then have "set (eng ks) = set [0..<length ks]"
    by (rule mset_eq_setD)
  then show ?thesis
    by simp
qed

lemma orderBy_mset:
  assumes "engine_ok eng"
  shows "mset (orderBy eng key rows) = mset rows"
proof -
  from assms have "mset (eng (map key rows)) = mset [0..<length rows]"
    by (simp add: engine_ok_def)
  then have "mset (map (\<lambda>i. rows ! i) (eng (map key rows))) =
      mset (map (\<lambda>i. rows ! i) [0..<length rows])"
    by (simp only: mset_map)
  then show ?thesis
    by (simp add: orderBy_def map_nth)
qed

lemma orderBy_set:
  assumes "engine_ok eng"
  shows "set (orderBy eng key rows) = set rows"
  using orderBy_mset [OF assms, of key rows] by (rule mset_eq_setD)

lemma orderBy_sorted:
  assumes "engine_ok eng"
  shows "sorted (map key (orderBy eng key rows))"
proof -
  let ?ks = "map key rows"
  from assms have s: "sorted (map (\<lambda>i. ?ks ! i) (eng ?ks))"
    by (simp add: engine_ok_def)
  have "map key (orderBy eng key rows) = map (\<lambda>i. ?ks ! i) (eng ?ks)"
    using engine_indices [OF assms, of ?ks] by (auto simp: orderBy_def)
  with s show ?thesis
    by simp
qed

lemma mapE_map:
  assumes "\<And>x y. f x = Inr y \<Longrightarrow> g y = h x"
  shows "mapE f xs = Inr ys \<Longrightarrow> map g ys = map h xs"
proof (induction xs arbitrary: ys)
  case Nil
  then show ?case by simp
next
  case (Cons x xs)
  then show ?case
    by (auto simp: assms split: sum.splits)
qed

lemma mapE_set:
  "mapE f xs = Inr ys \<Longrightarrow> y \<in> set ys \<Longrightarrow> \<exists>x \<in> set xs. f x = Inr y"
proof (induction xs arbitrary: ys)
  case Nil
  then show ?case by simp
next
  case (Cons x xs)
  then show ?case
    by (auto split: sum.splits)
qed

lemma mapE_returns:
  "(\<And>x. x \<in> set xs \<Longrightarrow> \<exists>y. f x = Inr y) \<Longrightarrow> \<exists>ys. mapE f xs = Inr ys"
proof (induction xs)
  case Nil
  then show ?case by simp
next
  case (Cons x xs)
  then obtain y ys where "f x = Inr y" and "mapE f xs = Inr ys"
    by (metis list.set_intros(1) list.set_intros(2))
  then show ?case
    by simp
qed

lemmas db_eval = getWorkoutsByDate_def findManyWorkouts_def orderBy_def asc_def desc_def
  setHours_def toWorkoutWithDetails_def toExerciseDetails_def toSetDetails_def
  stableEngine_def lastFirstEngine_def Let_def

lemma findMany_workouts:
  "map rel_workout (findManyWorkouts eng db cond) =
     orderBy eng (desc w_date) (filter cond (workouts db))"
  by (simp add: findManyWorkouts_def o_def)

lemma findMany_workoutExercises:
  assumes "r \<in> set (findManyWorkouts eng db cond)"
  shows "map rel_workoutExercise (rel_workoutExercises r) =
     orderBy eng (asc we_orderIndex)
       (filter (\<lambda>we. we_workoutId we = w_id (rel_workout r)) (workoutExercises db))"
  using assms by (auto simp: findManyWorkouts_def o_def)

lemma findMany_sets:
  assumes "r \<in> set (findManyWorkouts eng db cond)" and "x \<in> set (rel_workoutExercises r)"
  shows "rel_sets x =
     orderBy eng (asc s_setNumber)
       (filter (\<lambda>s. s_workoutExerciseId s = we_id (rel_workoutExercise x)) (sets db))"
  using assms by (auto simp: findManyWorkouts_def)

lemma findMany_exercise:
  assumes "r \<in> set (findManyWorkouts eng db cond)" and "x \<in> set (rel_workoutExercises r)"
  shows "rel_exercise x =
     find (\<lambda>e. e_id e = we_exerciseId (rel_workoutExercise x)) (exercises db)"
  using assms by (auto simp: findManyWorkouts_def)

lemma toWorkoutWithDetails_Inr:
  assumes "toWorkoutWithDetails r = Inr w"
  shows "wd_id w = w_id (rel_workout r)" and "wd_date w = w_date (rel_workout r)"
    and "mapE toExerciseDetails (rel_workoutExercises r) = Inr (wd_exercises w)"
  using assms by (auto simp: toWorkoutWithDetails_def split: sum.splits)

lemma toExerciseDetails_Inr:
  assumes "toExerciseDetails x = Inr e"
  shows "ed_orderIndex e = we_orderIndex (rel_workoutExercise x)"
    and "ed_sets e = map toSetDetails (rel_sets x)"
  using assms by (auto simp: toExerciseDetails_def split: option.splits)

lemma sorted_desc: "sorted (map (\<lambda>x. - f x) xs) = sorted_wrt (\<lambda>a b. f b \<le> (f a :: int)) xs"
  by (simp add: sorted_map)

text \<open>
  C4, amended. Whatever order the store gives to rows with equal keys: in every result
  of \<open>getWorkoutsByDate\<close> the workouts are sorted by date, latest first, the exercises
  of each workout are sorted ascending by \<open>orderIndex\<close>, and the sets of each exercise
  are sorted ascending by \<open>setNumber\<close>. Stored order indices \<open>[0, 2, 1]\<close> come back as
  \<open>[0, 1, 2]\<close>. The order among workouts of equal date is left to the store.
\<close>

theorem getWorkoutsByDate_ordering:
  assumes "engine_ok eng"
    and "getWorkoutsByDate eng tz db userId date = Inr out"
  shows "sorted_wrt (\<lambda>a b. wd_date b \<le> wd_date a) out \<and>
         (\<forall>w \<in> set out. sorted (map ed_orderIndex (wd_exercises w)) \<and>
            (\<forall>e \<in> set (wd_exercises w). sorted (map sd_setNumber (ed_sets e))))"
proof -
  define cond :: "Workout \<Rightarrow> bool" where "cond = (\<lambda>w. w_userId w = userId \<and> setHours tz date 0 0 0 0 \<le> w_date w \<and>
      w_date w < setHours tz date 23 59 59 999)"
  define rels where "rels = findManyWorkouts eng db cond"
  from assms(2) have out: "mapE toWorkoutWithDetails rels = Inr out"
    by (simp add: getWorkoutsByDate_def rels_def cond_def Let_def)
  have "map wd_date out = map (\<lambda>r. w_date (rel_workout r)) rels"
    using out by (rule mapE_map [rotated]) (simp add: toWorkoutWithDetails_Inr)
  also have "\<dots> = map w_date (map rel_workout rels)"
    by simp
  also have "\<dots> = map w_date (orderBy eng (desc w_date) (filter cond (workouts db)))"
    by (simp only: rels_def findMany_workouts)
  finally have dates: "map wd_date out =
      map w_date (orderBy eng (desc w_date) (filter cond (workouts db)))" .
  have "sorted (map (desc w_date) (orderBy eng (desc w_date) (filter cond (workouts db))))"
    using assms(1) by (rule orderBy_sorted)
  then have "sorted (map (\<lambda>d. - d) (map w_date (orderBy eng (desc w_date) (filter cond (workouts db)))))"
    by (simp add: desc_def o_def)
  then have "sorted (map (\<lambda>d. - d) (map wd_date out))"
    by (simp only: dates)
  then have first: "sorted_wrt (\<lambda>a b. wd_date b \<le> wd_date a) out"
    by (simp add: o_def sorted_desc)
  have second: "sorted (map ed_orderIndex (wd_exercises w)) \<and>
      (\<forall>e \<in> set (wd_exercises w). sorted (map sd_setNumber (ed_sets e)))"
    if w: "w \<in> set out" for w
  proof -
    from out w obtain r where r: "r \<in> set rels" and rw: "toWorkoutWithDetails r = Inr w"
      by (blast dest: mapE_set)
    from rw have es: "mapE toExerciseDetails (rel_workoutExercises r) = Inr (wd_exercises w)"
      by (rule toWorkoutWithDetails_Inr)
    have "map ed_orderIndex (wd_exercises w) =
        map (\<lambda>x. we_orderIndex (rel_workoutExercise x)) (rel_workoutExercises r)"
      using es by (rule mapE_map [rotated]) (simp add: toExerciseDetails_Inr)
    also have "\<dots> = map we_orderIndex (map rel_workoutExercise (rel_workoutExercises r))"
      by simp
    also have "\<dots> = map (asc we_orderIndex) (orderBy eng (asc we_orderIndex)
        (filter (\<lambda>we. we_workoutId we = w_id (rel_workout r)) (workoutExercises db)))"
      using r by (simp only: rels_def findMany_workoutExercises asc_def)
    finally have "sorted (map ed_orderIndex (wd_exercises w))"
      using orderBy_sorted [OF assms(1)] by simp
    moreover have "sorted (map sd_setNumber (ed_sets e))" if e: "e \<in> set (wd_exercises w)" for e
    proof -
      from es e obtain x where x: "x \<in> set (rel_workoutExercises r)"
        and xe: "toExerciseDetails x = Inr e"
        by (blast dest: mapE_set)
      from xe have "ed_sets e = map toSetDetails (rel_sets x)"
        by (rule toExerciseDetails_Inr)
      then have "map sd_setNumber (ed_sets e) = map (asc s_setNumber) (rel_sets x)"
        by (simp add: toSetDetails_def asc_def o_def)
      also have "rel_sets x = orderBy eng (asc s_setNumber)
          (filter (\<lambda>s. s_workoutExerciseId s = we_id (rel_workoutExercise x)) (sets db))"
        using r x unfolding rels_def by (rule findMany_sets)
      finally show ?thesis
        using orderBy_sorted [OF assms(1)] by simp
    qed
    ultimately show ?thesis
      by blast
  qed
  from first second show ?thesis
    by blast
qed

lemma orderingDatabase_result:
  "getWorkoutsByDate stableEngine 0 orderingDatabase ''user_a'' 1756684800000 = Inr orderingResult"
  by (simp add: db_eval orderingDatabase_def orderingResult_def)

theorem getWorkoutsByDate_ordering_witness:
  "getWorkoutsByDate stableEngine 0 orderingDatabase ''user_a'' 1756684800000 = Inr orderingResult \<and>
   map (\<lambda>w. map ed_orderIndex (wd_exercises w)) orderingResult = [[0, 1, 2]] \<and>
   sorted_wrt (\<lambda>a b. wd_date b \<le> wd_date a) orderingResult"
  using getWorkoutsByDate_ordering [OF engine_ok_stableEngine orderingDatabase_result]
    orderingDatabase_result
  by (simp add: orderingResult_def)

text \<open>
  C4, as the claim states it, fails: the query orders by date only, and a store that
  answers \<open>ORDER BY\<close> correctly may return two workouts of the same date with the one
  inserted later, of the higher id, first.
\<close>

theorem getWorkoutsByDate_tie_order:
  "engine_ok lastFirstEngine \<and>
   map (\<lambda>w. (w_id w, w_date w, w_createdAt w)) (workouts sameDateDatabase) =
     [(1, 1756720800000, 10), (2, 1756720800000, 20)] \<and>
   map_sum id (map (\<lambda>w. (wd_id w, wd_date w)))
     (getWorkoutsByDate lastFirstEngine 0 sameDateDatabase ''user_a'' 1756684800000) =
   Inr [(2, 1756720800000), (1, 1756720800000)]"
  by (simp add: engine_ok_lastFirstEngine db_eval sameDateDatabase_def)

text \<open>
  C2. The upper bound of the query is \<open>date < endOfDay\<close> with \<open>endOfDay\<close> at
  \<open>23:59:59.999\<close>, so the last millisecond of the day is left out: a workout of the
  user dated \<open>2025-09-01T23:59:59.999\<close>, inside the day that starts at
  \<open>2025-09-01T00:00:00.000\<close> and before the next midnight, is not returned.
\<close>

theorem getWorkoutsByDate_last_millisecond:
  "lastMillisecondWorkout \<in> set (workouts lastMillisecondDatabase) \<and>
   w_userId lastMillisecondWorkout = ''user_a'' \<and>
   setHours 0 1756684800000 0 0 0 0 \<le> w_date lastMillisecondWorkout \<and>
   w_date lastMillisecondWorkout < setHours 0 1756684800000 0 0 0 0 + 86400000 \<and>
   getWorkoutsByDate stableEngine 0 lastMillisecondDatabase ''user_a'' 1756684800000 = Inr []"
  by (simp add: db_eval lastMillisecondDatabase_def lastMillisecondWorkout_def)

lemma setHours_end: "setHours tz d 23 59 59 999 = setHours tz d 0 0 0 0 + 86399999"
  by (simp add: setHours_def Let_def)

lemma setHours_start:
  "setHours tz d 0 0 0 0 \<le> d \<and> d < setHours tz d 0 0 0 0 + 86400000"
proof -
  have "0 \<le> (d + tz) mod 86400000" and "(d + tz) mod 86400000 < 86400000"
    by simp_all
  then show ?thesis
    by (simp add: setHours_def Let_def)
qed

lemma getWorkoutsByDate_selects:
  assumes "engine_ok eng"
    and "getWorkoutsByDate eng tz db userId date = Inr out"
  shows "mset (map wd_id out) =
     mset (map w_id (filter (\<lambda>w. w_userId w = userId \<and> setHours tz date 0 0 0 0 \<le> w_date w \<and>
        w_date w < setHours tz date 0 0 0 0 + 86399999) (workouts db)))"
proof -
  define cond :: "Workout \<Rightarrow> bool" where "cond = (\<lambda>w. w_userId w = userId \<and>
      setHours tz date 0 0 0 0 \<le> w_date w \<and> w_date w < setHours tz date 23 59 59 999)"
  define rels where "rels = findManyWorkouts eng db cond"
  from assms(2) have out: "mapE toWorkoutWithDetails rels = Inr out"
    by (simp add: getWorkoutsByDate_def rels_def cond_def Let_def)
  have "map wd_id out = map (\<lambda>r. w_id (rel_workout r)) rels"
    using out by (rule mapE_map [rotated]) (simp add: toWorkoutWithDetails_Inr)
  also have "\<dots> = map w_id (map rel_workout rels)"
    by simp
  also have "\<dots> = map w_id (orderBy eng (desc w_date) (filter cond (workouts db)))"
    by (simp only: rels_def findMany_workouts)
  finally have "mset (map wd_id out) = image_mset w_id (mset (filter cond (workouts db)))"
    by (simp add: orderBy_mset [OF assms(1)])
  then show ?thesis
    by (simp add: cond_def setHours_end)
qed

lemma getWorkoutsByDate_returns:
  assumes "engine_ok eng"
    and "\<forall>we \<in> set (workoutExercises db). \<exists>e \<in> set (exercises db). e_id e = we_exerciseId we"
  shows "\<exists>out. getWorkoutsByDate eng tz db userId date = Inr out"
proof -
  define cond :: "Workout \<Rightarrow> bool" where "cond = (\<lambda>w. w_userId w = userId \<and>
      setHours tz date 0 0 0 0 \<le> w_date w \<and> w_date w < setHours tz date 23 59 59 999)"
  define rels where "rels = findManyWorkouts eng db cond"
  have "\<exists>w. toWorkoutWithDetails r = Inr w" if r: "r \<in> set rels" for r
  proof -
    have "\<exists>e. toExerciseDetails x = Inr e" if x: "x \<in> set (rel_workoutExercises r)" for x
    proof -
      from x have "rel_workoutExercise x \<in> set (map rel_workoutExercise (rel_workoutExercises r))"
        by simp
      with r have "rel_workoutExercise x \<in> set (workoutExercises db)"
        by (simp only: rels_def findMany_workoutExercises orderBy_set [OF assms(1)]) simp
      with assms(2) have "\<exists>e \<in> set (exercises db). e_id e = we_exerciseId (rel_workoutExercise x)"
        by blast
      then have "find (\<lambda>e. e_id e = we_exerciseId (rel_workoutExercise x)) (exercises db) \<noteq> None"
        by (auto simp: find_None_iff)
      moreover have "rel_exercise x =
          find (\<lambda>e. e_id e = we_exerciseId (rel_workoutExercise x)) (exercises db)"
        using r x unfolding rels_def by (rule findMany_exercise)
      ultimately have "rel_exercise x \<noteq> None"
        by simp
      then show ?thesis
        by (auto simp: toExerciseDetails_def)
    qed
    then have "\<exists>es. mapE toExerciseDetails (rel_workoutExercises r) = Inr es"
      by (rule mapE_returns)
    then show ?thesis
      by (auto simp: toWorkoutWithDetails_def)
  qed
  then have "\<exists>out. mapE toWorkoutWithDetails rels = Inr out"
    by (rule mapE_returns)
  then show ?thesis
    by (simp add: getWorkoutsByDate_def rels_def cond_def Let_def)
qed

end
